theory Spec2Isabelle
  imports Main "HOL-Library.AList" "HOL-Library.Sublist"
begin

section \<open>Data model of \<^verbatim>\<open>pkg/utils/helmrepo.go\<close>\<close>

text \<open>
  A Go \<^verbatim>\<open>error\<close> is a value carrying a message; \<^verbatim>\<open>nil\<close> is the absence of one
  (\<open>None\<close> in an \<open>error option\<close>, \<open>Inr\<close> in a result \<open>error + 'a\<close>).
\<close>

datatype error = Error string

text \<open>
  \<^verbatim>\<open>appv1.Overrides\<close>, \<^verbatim>\<open>appv1.PackageFilter\<close> and \<^verbatim>\<open>appv1.Subscription\<close>, with the fields
  the file reads. \<open>SubNamespace\<close> and \<open>SubName\<close> are \<^verbatim>\<open>sub.Namespace\<close> and \<^verbatim>\<open>sub.Name\<close>;
  \<open>Package\<close>, \<open>PackageFilter\<close> and \<open>PackageOverrides\<close> are the fields of \<^verbatim>\<open>sub.Spec\<close>;
  \<open>FilterVersion\<close> is \<^verbatim>\<open>PackageFilter.Version\<close>. A pointer that may be \<^verbatim>\<open>nil\<close> is an
  \<open>option\<close>; the annotations are a Go map that may be \<^verbatim>\<open>nil\<close>. The label selector
  (\<^verbatim>\<open>metav1.LabelSelector\<close>) is only passed on, so its type is a parameter.
\<close>

record Overrides =
  PackageName :: string
  PackageAlias :: string

record 'sel PackageFilter =
  LabelSelector :: "'sel option"
  Annotations :: "(string \<rightharpoonup> string) option"
  FilterVersion :: string

record 'sel Subscription =
  SubNamespace :: string
  SubName :: string
  Package :: string
  PackageFilter :: "'sel PackageFilter option"
  PackageOverrides :: "Overrides list"

text \<open>
  \<^verbatim>\<open>chart.Metadata\<close> and \<^verbatim>\<open>repo.ChartVersion\<close> (which embeds the metadata), with the
  fields the filters read, and the getters whose results the checks use.
\<close>

record Metadata =
  Name :: string
  Version :: string
  Keywords :: "string list"
  TillerVersion :: string

record ChartVersion = Metadata +
  URLs :: "string list"
  Digest :: string

definition GetVersion :: "'a Metadata_scheme \<Rightarrow> string" where
  "GetVersion m = Version m"

definition GetTillerVersion :: "'a Metadata_scheme \<Rightarrow> string" where
  "GetTillerVersion m = TillerVersion m"

section \<open>GetPackageAlias\<close>

text \<open>
  The loop over \<^verbatim>\<open>sub.Spec.PackageOverrides\<close>: it returns from inside the loop at the
  first override with the given name and a non-empty alias, and falls through to
  \<^verbatim>\<open>return ""\<close> otherwise.
\<close>

fun GetPackageAlias_loop :: "Overrides list \<Rightarrow> string \<Rightarrow> string" where
  "GetPackageAlias_loop [] packageName = ''''"
| "GetPackageAlias_loop (overrides # rest) packageName =
     (if PackageName overrides = packageName
      then (if PackageAlias overrides \<noteq> '''' then PackageAlias overrides
            else GetPackageAlias_loop rest packageName)
      else GetPackageAlias_loop rest packageName)"

definition GetPackageAlias :: "'sel Subscription \<Rightarrow> string \<Rightarrow> string" where
  "GetPackageAlias sub packageName = GetPackageAlias_loop (PackageOverrides sub) packageName"

section \<open>The index and the external collaborators\<close>

text \<open>
  \<^verbatim>\<open>repo.IndexFile\<close>. \<^verbatim>\<open>Entries\<close> is a Go map from chart name to its versions; it is an
  association list here, so that \<^verbatim>\<open>for k := range indexFile.Entries\<close> has a list of keys to
  run over (Go fixes no iteration order: the list's order stands for the order of one run).
  \<open>bucket\<close> is the map read \<^verbatim>\<open>indexFile.Entries[k]\<close> with its presence flag,
  \<^verbatim>\<open>delete(m, k)\<close> is \<open>AList.delete\<close>, \<^verbatim>\<open>m[k] = v\<close> is \<open>AList.update\<close>. A Go map holds
  a key once; nothing below needs the list to do so.
\<close>

record IndexFile =
  APIVersion :: string
  Entries :: "(string \<times> ChartVersion list) list"

definition NewIndexFile :: IndexFile where
  "NewIndexFile = \<lparr>APIVersion = ''v1'', Entries = []\<rparr>"

definition bucket :: "IndexFile \<Rightarrow> string \<Rightarrow> ChartVersion list option" where
  "bucket indexFile k = map_of (Entries indexFile) k"

text \<open>
  The libraries the file calls are not part of it; the functions take them as a record.
  \<open>semver_Parse\<close> and \<open>semver_ParseRange\<close> are \<^verbatim>\<open>semver.Parse\<close> and \<^verbatim>\<open>semver.ParseRange\<close>
  of \<^verbatim>\<open>github.com/blang/semver\<close> (a range is a predicate on versions; \<open>'v\<close> is
  \<^verbatim>\<open>semver.Version\<close>). \<open>selector_Matches\<close> evaluates a label selector that is present
  against a list of keywords.
\<close>

record ('v, 'sel) Collaborators =
  semver_Parse :: "string \<Rightarrow> error + 'v"
  semver_ParseRange :: "string \<Rightarrow> error + ('v \<Rightarrow> bool)"
  selector_Matches :: "'sel \<Rightarrow> string list \<Rightarrow> bool"

text \<open>
  What \<^verbatim>\<open>GenerateHelmIndexFile\<close> calls besides: \<^verbatim>\<open>chartutil.LoadChartfile\<close>,
  \<^verbatim>\<open>filepath.Base\<close>, \<^verbatim>\<open>strings.Split\<close>, \<^verbatim>\<open>strings.SplitAfter\<close>, and the methods
  \<^verbatim>\<open>Add\<close> and \<^verbatim>\<open>SortEntries\<close> of \<^verbatim>\<open>repo.IndexFile\<close> (which mutate the index: here they
  return the new one).
\<close>

record ('v, 'sel) Environment = "('v, 'sel) Collaborators" +
  chartutil_LoadChartfile :: "string \<Rightarrow> error + Metadata"
  filepath_Base :: "string \<Rightarrow> string"
  strings_Split :: "string \<Rightarrow> string \<Rightarrow> string list"
  strings_SplitAfter :: "string \<Rightarrow> string \<Rightarrow> string list"
  IndexFile_Add :: "IndexFile \<Rightarrow> Metadata \<Rightarrow> string \<Rightarrow> string \<Rightarrow> string \<Rightarrow> IndexFile"
  IndexFile_SortEntries :: "IndexFile \<Rightarrow> IndexFile"

text \<open>
  Modelled from the spec: \<^verbatim>\<open>KeywordsChecker\<close> is a function of package \<^verbatim>\<open>utils\<close> defined
  in another file. Spec 4.2: if the selector is absent it returns true unconditionally;
  otherwise it evaluates the selector's requirements against the keywords and never fails.
\<close>

definition KeywordsChecker ::
  "('v, 'sel, 'x) Collaborators_scheme \<Rightarrow> 'sel option \<Rightarrow> string list \<Rightarrow> bool" where
  "KeywordsChecker lib labelSelector ks =
     (case labelSelector of None \<Rightarrow> True | Some selector \<Rightarrow> selector_Matches lib selector ks)"

section \<open>The per-version checks\<close>

definition checkKeywords ::
  "('v, 'sel, 'x) Collaborators_scheme \<Rightarrow> 'sel Subscription \<Rightarrow> ChartVersion \<Rightarrow> bool" where
  "checkKeywords lib sub chartVersion =
     (let labelSelector =
            (case PackageFilter sub of None \<Rightarrow> None | Some pf \<Rightarrow> LabelSelector pf)
      in KeywordsChecker lib labelSelector (Keywords chartVersion))"

definition checkTillerVersion ::
  "('v, 'sel, 'x) Collaborators_scheme \<Rightarrow> 'sel Subscription \<Rightarrow> ChartVersion \<Rightarrow> bool" where
  "checkTillerVersion lib sub chartVersion =
     (case PackageFilter sub of
        None \<Rightarrow> True
      | Some pf \<Rightarrow>
          (case Annotations pf of
             None \<Rightarrow> True
           | Some annotations \<Rightarrow>
               (case annotations ''tillerVersion'' of
                  None \<Rightarrow> True
                | Some filterTillerVersion \<Rightarrow>
                    (let tillerVersion = GetTillerVersion chartVersion in
                     if tillerVersion \<noteq> '''' then
                       (case semver_ParseRange lib tillerVersion of
                          Inl err \<Rightarrow> False
                        | Inr tillerVersionVersion \<Rightarrow>
                            (case semver_Parse lib filterTillerVersion of
                               Inl err \<Rightarrow> False
                             | Inr filterTillerVersion' \<Rightarrow>
                                 tillerVersionVersion filterTillerVersion'))
                     else True))))"

definition checkVersion ::
  "('v, 'sel, 'x) Collaborators_scheme \<Rightarrow> 'sel Subscription \<Rightarrow> ChartVersion \<Rightarrow> bool" where
  "checkVersion lib sub chartVersion =
     (case PackageFilter sub of
        None \<Rightarrow> True
      | Some pf \<Rightarrow>
          if FilterVersion pf \<noteq> '''' then
            (let version = GetVersion chartVersion in
             case semver_Parse lib version of
               Inl err \<Rightarrow> False
             | Inr versionVersion \<Rightarrow>
                 (case semver_ParseRange lib (FilterVersion pf) of
                    Inl err \<Rightarrow> False
                  | Inr filterVersion \<Rightarrow> filterVersion versionVersion))
          else True)"

section \<open>The filtering pipeline\<close>

text \<open>
  \<^verbatim>\<open>removeNoMatchingName\<close> returns its error and the index as it leaves it. With a package
  name it snapshots the keys and deletes every other key; without one it only builds the
  error.
\<close>

definition removeNoMatchingName ::
  "'sel Subscription \<Rightarrow> IndexFile \<Rightarrow> error option \<times> IndexFile" where
  "removeNoMatchingName sub indexFile =
     (if Package sub \<noteq> '''' then
        (let keys = map fst (Entries indexFile) in
         (None,
          indexFile\<lparr>Entries :=
            fold (\<lambda>k entries. if k \<noteq> Package sub then AList.delete k entries else entries)
              keys (Entries indexFile)\<rparr>))
      else
        (Some (Error (''subsciption.spec.name is missing for subscription: '' @
                 SubNamespace sub @ ''/'' @ SubName sub)),
         indexFile))"

text \<open>
  One round of the outer loop of \<^verbatim>\<open>filterOnVersion\<close> for the key \<open>k\<close>: read the bucket (a
  missing key reads as the empty slice), keep the versions that pass the three checks, in
  order, and store the new bucket, or delete the key when nothing is left.
\<close>

definition filterOnVersion_step ::
  "('v, 'sel, 'x) Collaborators_scheme \<Rightarrow> 'sel Subscription \<Rightarrow> string \<Rightarrow>
   (string \<times> ChartVersion list) list \<Rightarrow> (string \<times> ChartVersion list) list" where
  "filterOnVersion_step lib sub k entries =
     (let chartVersions = (case map_of entries k of None \<Rightarrow> [] | Some cvs \<Rightarrow> cvs);
          newChartVersions =
            filter (\<lambda>chartVersion. checkKeywords lib sub chartVersion \<and>
                      checkTillerVersion lib sub chartVersion \<and>
                      checkVersion lib sub chartVersion) chartVersions
      in if length newChartVersions > 0 then AList.update k newChartVersions entries
         else AList.delete k entries)"

definition filterOnVersion ::
  "('v, 'sel, 'x) Collaborators_scheme \<Rightarrow> 'sel Subscription \<Rightarrow> IndexFile \<Rightarrow> IndexFile" where
  "filterOnVersion lib sub indexFile =
     (let keys = map fst (Entries indexFile) in
      indexFile\<lparr>Entries := fold (filterOnVersion_step lib sub) keys (Entries indexFile)\<rparr>)"

text \<open>
  \<^verbatim>\<open>filterCharts\<close> has no result: it drops the error of \<^verbatim>\<open>removeNoMatchingName\<close>
  (\<^verbatim>\<open>_ = removeNoMatchingName(sub, indexFile)\<close>) and goes on with \<^verbatim>\<open>filterOnVersion\<close>.
\<close>

definition filterCharts ::
  "('v, 'sel, 'x) Collaborators_scheme \<Rightarrow> 'sel Subscription \<Rightarrow> IndexFile \<Rightarrow> IndexFile" where
  "filterCharts lib sub indexFile =
     (case removeNoMatchingName sub indexFile of
        (_, indexFile') \<Rightarrow> filterOnVersion lib sub indexFile')"

section \<open>GenerateHelmIndexFile\<close>

text \<open>
  Indexing a slice: Go panics when the index is out of range.
\<close>

definition index :: "'a list \<Rightarrow> nat \<Rightarrow> 'a option" where
  "index xs i = (if i < length xs then Some (xs ! i) else None)"

text \<open>
  How a call ends: with a panic, or by returning the index and an error (\<open>None\<close> is
  \<^verbatim>\<open>nil\<close>).
\<close>

datatype outcome = Panic | Return IndexFile "error option"

text \<open>
  The loop over the keys of \<^verbatim>\<open>chartDirs\<close>. \<open>Inl\<close> is a call that ended inside the loop;
  \<open>Inr\<close> is the index after the last round.
\<close>

fun GenerateHelmIndexFile_loop ::
  "('v, 'sel, 'x) Environment_scheme \<Rightarrow> string \<Rightarrow> IndexFile \<Rightarrow> string list \<Rightarrow>
   outcome + IndexFile" where
  "GenerateHelmIndexFile_loop env repoRoot indexFile [] = Inr indexFile"
| "GenerateHelmIndexFile_loop env repoRoot indexFile (chartDir # rest) =
     (let chartFolderName = filepath_Base env chartDir in
      case index (strings_Split env chartDir chartFolderName) 0 of
        None \<Rightarrow> Inl Panic
      | Some chartParentDir \<Rightarrow>
          (case index (strings_SplitAfter env chartParentDir (repoRoot @ ''/'')) 1 of
             None \<Rightarrow> Inl Panic
           | Some chartBaseDir \<Rightarrow>
               (case chartutil_LoadChartfile env (chartDir @ ''Chart.yaml'') of
                  Inl err \<Rightarrow> Inl (Return indexFile (Some err))
                | Inr chartMetadata \<Rightarrow>
                    GenerateHelmIndexFile_loop env repoRoot
                      (IndexFile_Add env indexFile chartMetadata chartFolderName chartBaseDir
                         ''generated-by-multicloud-operators-subscription'')
                      rest)))"

definition GenerateHelmIndexFile ::
  "('v, 'sel, 'x) Environment_scheme \<Rightarrow> 'sel Subscription \<Rightarrow> string \<Rightarrow>
   (string \<times> string) list \<Rightarrow> outcome" where
  "GenerateHelmIndexFile env sub repoRoot chartDirs =
     (case GenerateHelmIndexFile_loop env repoRoot NewIndexFile (map fst chartDirs) of
        Inl ended \<Rightarrow> ended
      | Inr indexFile \<Rightarrow>
          Return (filterCharts env sub (IndexFile_SortEntries env indexFile)) None)"

section \<open>Notions the statements use\<close>

text \<open>
  The condition under which the inner loop of \<^verbatim>\<open>filterOnVersion\<close> keeps a version.
\<close>

definition passes ::
  "('v, 'sel, 'x) Collaborators_scheme \<Rightarrow> 'sel Subscription \<Rightarrow> ChartVersion \<Rightarrow> bool" where
  "passes lib sub chartVersion =
     (checkKeywords lib sub chartVersion \<and> checkTillerVersion lib sub chartVersion \<and>
      checkVersion lib sub chartVersion)"

text \<open>
  A subscription with no optional filter: no version range, no \<^verbatim>\<open>tillerVersion\<close>
  annotation and no label selector.
\<close>

definition noOptionalFilters :: "'sel Subscription \<Rightarrow> bool" where
  "noOptionalFilters sub =
     (case PackageFilter sub of
        None \<Rightarrow> True
      | Some pf \<Rightarrow>
          FilterVersion pf = '''' \<and> LabelSelector pf = None \<and>
          (case Annotations pf of None \<Rightarrow> True
           | Some annotations \<Rightarrow> annotations ''tillerVersion'' = None))"

text \<open>
  What \<^verbatim>\<open>filterOnVersion\<close> leaves of a bucket: the versions that satisfy \<open>P\<close>, in order,
  and no bucket at all when there is none.
\<close>

definition prunedBucket ::
  "(ChartVersion \<Rightarrow> bool) \<Rightarrow> ChartVersion list option \<Rightarrow> ChartVersion list option" where
  "prunedBucket P b =
     (case b of
        None \<Rightarrow> None
      | Some cvs \<Rightarrow> if filter P cvs = [] then None else Some (filter P cvs))"

text \<open>
  The two optional version filters of a subscription: whether a version range is set, and
  the \<^verbatim>\<open>tillerVersion\<close> annotation when there is one.
\<close>

definition versionRangeSet :: "'sel Subscription \<Rightarrow> bool" where
  "versionRangeSet sub =
     (case PackageFilter sub of None \<Rightarrow> False | Some pf \<Rightarrow> FilterVersion pf \<noteq> '''')"

definition tillerVersionFilter :: "'sel Subscription \<Rightarrow> string option" where
  "tillerVersionFilter sub =
     (case PackageFilter sub of
        None \<Rightarrow> None
      | Some pf \<Rightarrow>
          (case Annotations pf of None \<Rightarrow> None
           | Some annotations \<Rightarrow> annotations ''tillerVersion''))"

text \<open>
  The spec's \<^verbatim>\<open>VersionRangeMatcher\<close> (section 4.1), in the spec's words: it parses
  \<open>rangeExpr\<close> as a range and \<open>candidate\<close> as an exact version, fails when either does not
  parse, and otherwise tells whether the candidate satisfies the range.
\<close>

definition VersionRangeMatcher ::
  "('v, 'sel, 'x) Collaborators_scheme \<Rightarrow> string \<Rightarrow> string \<Rightarrow> error + bool" where
  "VersionRangeMatcher lib rangeExpr candidate =
     (case semver_ParseRange lib rangeExpr of
        Inl err \<Rightarrow> Inl err
      | Inr inRange \<Rightarrow>
          (case semver_Parse lib candidate of
             Inl err \<Rightarrow> Inl err
           | Inr v \<Rightarrow> Inr (inRange v)))"

section \<open>An instance of the collaborators, for concrete inputs\<close>

text \<open>
  To run the functions on concrete inputs the collaborators need values. This instance
  covers a fragment of what the libraries accept. Versions are
  \<^verbatim>\<open>MAJOR.MINOR.PATCH\<close>, three decimal numbers below \<open>2 ^ 64\<close> without leading zeroes,
  ordered component by component. Ranges are comparators separated by spaces, all of which
  must hold; a comparator is a version after one of \<^verbatim>\<open>= == != ! > >= < <=\<close> or after
  nothing (which reads as \<^verbatim>\<open>=\<close>). Any other string is a parse error here; the semver
  library also reads pre-release and build parts and the \<^verbatim>\<open>||\<close> of ranges. A label selector
  is a list of keys that must all be among the keywords.
\<close>

type_synonym SemVer = "nat \<times> nat \<times> nat"

definition parseUint :: "string \<Rightarrow> nat option" where
  "parseUint s =
     (if s = [] then None
      else if list_ex (\<lambda>c. c \<notin> set ''0123456789'') s then None
      else if 1 < length s \<and> hd s = CHR ''0'' then None
      else (let n = foldl (\<lambda>n c. 10 * n + (of_char c - 48)) 0 s
            in if n < 2 ^ 64 then Some n else None))"

fun splitOn :: "char \<Rightarrow> string \<Rightarrow> string list" where
  "splitOn d [] = [[]]"
| "splitOn d (c # cs) =
     (if c = d then [] # splitOn d cs
      else (case splitOn d cs of [] \<Rightarrow> [[c]] | w # ws \<Rightarrow> (c # w) # ws))"

fun semverLess :: "SemVer \<Rightarrow> SemVer \<Rightarrow> bool" where
  "semverLess (a1, b1, c1) (a2, b2, c2) =
     (a1 < a2 \<or> (a1 = a2 \<and> (b1 < b2 \<or> (b1 = b2 \<and> c1 < c2))))"

definition fragment_Parse :: "string \<Rightarrow> error + SemVer" where
  "fragment_Parse s =
     (case map parseUint (splitOn CHR ''.'' s) of
        [Some a, Some b, Some c] \<Rightarrow> Inr (a, b, c)
      | _ \<Rightarrow> Inl (Error (''Invalid version: '' @ s)))"

definition fragment_comparator :: "string \<Rightarrow> error + (SemVer \<Rightarrow> bool)" where
  "fragment_comparator s =
     (let opStr = takeWhile (\<lambda>c. c \<in> set ''<>=!'') s;
          vStr = dropWhile (\<lambda>c. c \<in> set ''<>=!'') s
      in case fragment_Parse vStr of
           Inl err \<Rightarrow> Inl err
         | Inr v \<Rightarrow>
             if opStr = '''' \<or> opStr = ''='' \<or> opStr = ''=='' then Inr (\<lambda>u. u = v)
             else if opStr = ''!='' \<or> opStr = ''!'' then Inr (\<lambda>u. u \<noteq> v)
             else if opStr = ''>'' then Inr (\<lambda>u. semverLess v u)
             else if opStr = ''>='' then Inr (\<lambda>u. u = v \<or> semverLess v u)
             else if opStr = ''<'' then Inr (\<lambda>u. semverLess u v)
             else if opStr = ''<='' then Inr (\<lambda>u. u = v \<or> semverLess u v)
             else Inl (Error (''Invalid comparator: '' @ s)))"

fun fragment_conjunction :: "string list \<Rightarrow> error + (SemVer \<Rightarrow> bool)" where
  "fragment_conjunction [] = Inr (\<lambda>u. True)"
| "fragment_conjunction (c # cs) =
     (case fragment_comparator c of
        Inl err \<Rightarrow> Inl err
      | Inr f \<Rightarrow>
          (case fragment_conjunction cs of
             Inl err \<Rightarrow> Inl err
           | Inr g \<Rightarrow> Inr (\<lambda>u. f u \<and> g u)))"

definition fragment_ParseRange :: "string \<Rightarrow> error + (SemVer \<Rightarrow> bool)" where
  "fragment_ParseRange s =
     (case filter (\<lambda>w. w \<noteq> []) (splitOn CHR '' '' s) of
        [] \<Rightarrow> Inl (Error ''Empty range'')
      | cs \<Rightarrow> fragment_conjunction cs)"

definition fragment_Matches :: "string list \<Rightarrow> string list \<Rightarrow> bool" where
  "fragment_Matches selector ks = list_all (\<lambda>key. key \<in> set ks) selector"

definition fragmentLib :: "(SemVer, string list) Collaborators" where
  "fragmentLib =
     \<lparr>semver_Parse = fragment_Parse, semver_ParseRange = fragment_ParseRange,
      selector_Matches = fragment_Matches\<rparr>"

text \<open>
  The same for what \<^verbatim>\<open>GenerateHelmIndexFile\<close> calls. \<open>fragment_Base\<close> is \<^verbatim>\<open>filepath.Base\<close>
  for slash-separated paths; \<open>fragment_Split\<close> and \<open>fragment_SplitAfter\<close> cut a string at
  every occurrence of a separator, found from the left (the second keeps the separator at
  the end of each piece); an empty separator cuts after every character. The manifests
  come from a table of paths. \<open>fragment_Add\<close> appends the new version to the bucket of the
  chart's name, with one URL made of the base directory and the file name;
  \<open>fragment_SortEntries\<close> sorts every bucket in descending order of version, versions that
  do not parse last.
\<close>

definition fragment_Base :: "string \<Rightarrow> string" where
  "fragment_Base path =
     (if path = [] then ''.''
      else (let stripped = rev (dropWhile (\<lambda>c. c = CHR ''/'') (rev path))
            in if stripped = [] then ''/''
               else rev (takeWhile (\<lambda>c. c \<noteq> CHR ''/'') (rev stripped))))"

fun cutAt :: "bool \<Rightarrow> string \<Rightarrow> nat \<Rightarrow> string \<Rightarrow> string \<Rightarrow> string list" where
  "cutAt keep sep skip piece [] = [rev piece]"
| "cutAt keep sep (Suc n) piece (c # cs) = cutAt keep sep n piece cs"
| "cutAt keep sep 0 piece (c # cs) =
     (if prefix sep (c # cs)
      then (rev piece @ (if keep then sep else [])) # cutAt keep sep (length sep - 1) [] cs
      else cutAt keep sep 0 (c # piece) cs)"

definition fragment_Split :: "string \<Rightarrow> string \<Rightarrow> string list" where
  "fragment_Split s sep = (if sep = [] then map (\<lambda>c. [c]) s else cutAt False sep 0 [] s)"

definition fragment_SplitAfter :: "string \<Rightarrow> string \<Rightarrow> string list" where
  "fragment_SplitAfter s sep = (if sep = [] then map (\<lambda>c. [c]) s else cutAt True sep 0 [] s)"

definition fragment_LoadChartfile :: "(string \<times> Metadata) list \<Rightarrow> string \<Rightarrow> error + Metadata" where
  "fragment_LoadChartfile disk path =
     (case map_of disk path of
        None \<Rightarrow> Inl (Error (''open '' @ path @ '': no such file or directory''))
      | Some md \<Rightarrow> Inr md)"

definition fragment_Add ::
  "IndexFile \<Rightarrow> Metadata \<Rightarrow> string \<Rightarrow> string \<Rightarrow> string \<Rightarrow> IndexFile" where
  "fragment_Add indexFile md filename baseURL digest =
     (let cr = \<lparr>Name = Name md, Version = Version md, Keywords = Keywords md,
                TillerVersion = TillerVersion md, URLs = [baseURL @ filename],
                Digest = digest\<rparr>
      in indexFile\<lparr>Entries :=
           (case map_of (Entries indexFile) (Name md) of
              None \<Rightarrow> Entries indexFile @ [(Name md, [cr])]
            | Some ee \<Rightarrow> AList.update (Name md) (ee @ [cr]) (Entries indexFile))\<rparr>)"

definition versionBefore :: "ChartVersion \<Rightarrow> ChartVersion \<Rightarrow> bool" where
  "versionBefore a b =
     (case fragment_Parse (Version a) of
        Inl err \<Rightarrow> False
      | Inr i \<Rightarrow>
          (case fragment_Parse (Version b) of
             Inl err \<Rightarrow> True
           | Inr j \<Rightarrow> semverLess j i))"

fun insertDescending :: "ChartVersion \<Rightarrow> ChartVersion list \<Rightarrow> ChartVersion list" where
  "insertDescending x [] = [x]"
| "insertDescending x (y # ys) =
     (if versionBefore x y then x # y # ys else y # insertDescending x ys)"

definition fragment_SortEntries :: "IndexFile \<Rightarrow> IndexFile" where
  "fragment_SortEntries indexFile =
     indexFile\<lparr>Entries :=
       map (\<lambda>(k, cvs). (k, foldr insertDescending cvs [])) (Entries indexFile)\<rparr>"

definition fragmentEnv :: "(string \<times> Metadata) list \<Rightarrow> (SemVer, string list) Environment" where
  "fragmentEnv disk =
     \<lparr>semver_Parse = fragment_Parse, semver_ParseRange = fragment_ParseRange,
      selector_Matches = fragment_Matches,
      chartutil_LoadChartfile = fragment_LoadChartfile disk,
      filepath_Base = fragment_Base,
      strings_Split = fragment_Split,
      strings_SplitAfter = fragment_SplitAfter,
      IndexFile_Add = fragment_Add,
      IndexFile_SortEntries = fragment_SortEntries\<rparr>"

section \<open>Concrete inputs\<close>

definition exampleChart :: "string \<Rightarrow> string \<Rightarrow> string \<Rightarrow> ChartVersion" where
  "exampleChart name version tillerVersion =
     \<lparr>Name = name, Version = version, Keywords = [], TillerVersion = tillerVersion,
      URLs = [], Digest = ''''\<rparr>"

definition exampleFilter :: "string \<Rightarrow> (string \<rightharpoonup> string) option \<Rightarrow> string list PackageFilter" where
  "exampleFilter version annotations =
     \<lparr>LabelSelector = None, Annotations = annotations, FilterVersion = version\<rparr>"

definition exampleSub ::
  "string \<Rightarrow> string list PackageFilter option \<Rightarrow> string list Subscription" where
  "exampleSub package packageFilter =
     \<lparr>SubNamespace = ''ns'', SubName = ''sub'', Package = package,
      PackageFilter = packageFilter, PackageOverrides = []\<rparr>"

definition exampleIndex :: "(string \<times> ChartVersion list) list \<Rightarrow> IndexFile" where
  "exampleIndex entries = \<lparr>APIVersion = ''v1'', Entries = entries\<rparr>"

definition exampleOverrides :: "Overrides list" where
  "exampleOverrides =
     [\<lparr>PackageName = ''app'', PackageAlias = ''''\<rparr>,
      \<lparr>PackageName = ''db'', PackageAlias = ''store''\<rparr>,
      \<lparr>PackageName = ''app'', PackageAlias = ''frontend''\<rparr>,
      \<lparr>PackageName = ''app'', PackageAlias = ''late''\<rparr>]"

definition exampleEntries :: "(string \<times> ChartVersion list) list" where
  "exampleEntries =
     [(''app'', [exampleChart ''app'' ''2.0.0'' ''>=2.4.0'', exampleChart ''app'' ''not-a-version'' '''',
                 exampleChart ''app'' ''1.0.0'' '''']),
      (''db'', [exampleChart ''db'' ''0.3.1'' ''''])]"


text \<open>
  A checkout with two charts under \<^verbatim>\<open>/repo/charts\<close>, and the index that \<^verbatim>\<open>Add\<close> builds
  from them.
\<close>

definition exampleDisk :: "(string \<times> Metadata) list" where
  "exampleDisk =
     [(''/repo/charts/app/Chart.yaml'',
       \<lparr>Name = ''app'', Version = ''1.0.0'', Keywords = [''stable''], TillerVersion = ''''\<rparr>),
      (''/repo/charts/db/Chart.yaml'',
       \<lparr>Name = ''db'', Version = ''0.3.1'', Keywords = [], TillerVersion = ''''\<rparr>)]"

definition exampleBuilt :: IndexFile where
  "exampleBuilt =
     \<lparr>APIVersion = ''v1'',
      Entries =
        [(''app'',
          [\<lparr>Name = ''app'', Version = ''1.0.0'', Keywords = [''stable''], TillerVersion = '''',
            URLs = [''charts/app''],
            Digest = ''generated-by-multicloud-operators-subscription''\<rparr>]),
         (''db'',
          [\<lparr>Name = ''db'', Version = ''0.3.1'', Keywords = [], TillerVersion = '''',
            URLs = [''charts/db''],
            Digest = ''generated-by-multicloud-operators-subscription''\<rparr>])]\<rparr>"

section \<open>Lemmas on the loops\<close>

subsection \<open>The loop of GetPackageAlias\<close>

lemma GetPackageAlias_loop_find:
  "GetPackageAlias_loop ovs pn =
     (case find (\<lambda>ov. PackageName ov = pn \<and> PackageAlias ov \<noteq> '''') ovs of
        None \<Rightarrow> '''' | Some ov \<Rightarrow> PackageAlias ov)"
  by (induction ovs) auto

subsection \<open>The name filter\<close>

lemma delete_filter: "AList.delete k es = filter (\<lambda>e. fst e \<noteq> k) es"
  by (induction es) auto

lemma fold_delete_others:
  "fold (\<lambda>k entries. if k \<noteq> p then AList.delete k entries else entries) ks es =
     filter (\<lambda>e. fst e = p \<or> fst e \<notin> set ks) es"
proof (induction ks arbitrary: es)
  case Nil
  show ?case by simp
next
  case (Cons k ks)
  show ?case
    by (auto simp: Cons.IH delete_filter intro: filter_cong)
qed

lemma fold_delete_others_keys:
  "fold (\<lambda>k entries. if k \<noteq> p then AList.delete k entries else entries) (map fst es) es =
     filter (\<lambda>e. fst e = p) es"
  unfolding fold_delete_others by (rule filter_cong) auto

lemma removeNoMatchingName_named:
  "Package sub \<noteq> '''' \<Longrightarrow>
   removeNoMatchingName sub indexFile =
     (None, indexFile\<lparr>Entries := filter (\<lambda>e. fst e = Package sub) (Entries indexFile)\<rparr>)"
  by (simp add: removeNoMatchingName_def fold_delete_others_keys)

lemma removeNoMatchingName_unnamed:
  "Package sub = '''' \<Longrightarrow>
   removeNoMatchingName sub indexFile =
     (Some (Error (''subsciption.spec.name is missing for subscription: '' @
              SubNamespace sub @ ''/'' @ SubName sub)), indexFile)"
  by (simp add: removeNoMatchingName_def)

lemma map_of_filter_key:
  "map_of (filter (\<lambda>e. fst e = p) es) k = (if k = p then map_of es k else None)"
  by (induction es) auto

subsection \<open>The version filter\<close>

lemma filterOnVersion_step_passes:
  "filterOnVersion_step lib sub k es =
     (let new = filter (passes lib sub) (case map_of es k of None \<Rightarrow> [] | Some cvs \<Rightarrow> cvs)
      in if new = [] then AList.delete k es else AList.update k new es)"
  by (simp add: filterOnVersion_step_def Let_def passes_def[abs_def])

lemma map_of_filterOnVersion_step:
  "map_of (filterOnVersion_step lib sub k es) =
     (map_of es)(k := prunedBucket (passes lib sub) (map_of es k))"
  by (auto simp: filterOnVersion_step_passes Let_def prunedBucket_def AList.update_conv'
      AList.delete_conv' split: option.splits)

lemma prunedBucket_idem: "prunedBucket P (prunedBucket P b) = prunedBucket P b"
  by (auto simp: prunedBucket_def split: option.splits)

text \<open>
  The loop may meet a key more than once, or a key that is not in the map: a second round
  on a key finds the bucket already filtered, and a missing key stays missing.
\<close>

lemma map_of_fold_step:
  "map_of (fold (filterOnVersion_step lib sub) ks es) k =
     (if k \<in> set ks then prunedBucket (passes lib sub) (map_of es k) else map_of es k)"
proof (induction ks arbitrary: es)
  case Nil
  show ?case by simp
next
  case (Cons a ks)
  show ?case
    by (simp add: Cons.IH map_of_filterOnVersion_step prunedBucket_idem)
qed

lemma bucket_filterOnVersion:
  "bucket (filterOnVersion lib sub indexFile) k = prunedBucket (passes lib sub) (bucket indexFile k)"
proof (cases "k \<in> fst ` set (Entries indexFile)")
  case True
  then show ?thesis
    by (simp add: bucket_def filterOnVersion_def map_of_fold_step)
next
  case False
  then have "map_of (Entries indexFile) k = None"
    by (simp add: map_of_eq_None_iff)
  with False show ?thesis
    by (simp add: bucket_def filterOnVersion_def map_of_fold_step prunedBucket_def)
qed

lemma bucket_filterCharts:
  "bucket (filterCharts lib sub indexFile) k =
     (if Package sub = '''' \<or> k = Package sub
      then prunedBucket (passes lib sub) (bucket indexFile k) else None)"
proof (cases "Package sub = ''''")
  case True
  then show ?thesis
    by (simp add: filterCharts_def removeNoMatchingName_unnamed bucket_filterOnVersion)
next
  case False
  then show ?thesis
    by (simp add: filterCharts_def removeNoMatchingName_named bucket_filterOnVersion)
      (simp add: bucket_def map_of_filter_key prunedBucket_def)
qed

text \<open>
  An index whose buckets are non-empty and hold only versions that pass is left as it is,
  as a list and not only as a map.
\<close>

lemma fold_step_stable:
  assumes "\<And>k. k \<in> set ks \<Longrightarrow>
             \<exists>cvs. map_of es k = Some cvs \<and> filter (passes lib sub) cvs = cvs \<and> cvs \<noteq> []"
  shows "fold (filterOnVersion_step lib sub) ks es = es"
  using assms
proof (induction ks)
  case Nil
  show ?case by simp
next
  case (Cons a ks)
  from Cons.prems[of a] obtain cvs where
    "map_of es a = Some cvs" "filter (passes lib sub) cvs = cvs" "cvs \<noteq> []" by auto
  then have "filterOnVersion_step lib sub a es = es"
    by (simp add: filterOnVersion_step_passes AList.update_triv)
  with Cons show ?case by simp
qed

lemma filterOnVersion_stable:
  assumes "\<And>k cvs. bucket indexFile k = Some cvs \<Longrightarrow>
             filter (passes lib sub) cvs = cvs \<and> cvs \<noteq> []"
  shows "filterOnVersion lib sub indexFile = indexFile"
proof -
  have "fold (filterOnVersion_step lib sub) (map fst (Entries indexFile)) (Entries indexFile) =
          Entries indexFile"
  proof (rule fold_step_stable)
    fix k assume "k \<in> set (map fst (Entries indexFile))"
    then obtain cvs where "map_of (Entries indexFile) k = Some cvs"
      by (metis image_set map_of_eq_None_iff not_Some_eq)
    with assms show "\<exists>cvs. map_of (Entries indexFile) k = Some cvs \<and>
        filter (passes lib sub) cvs = cvs \<and> cvs \<noteq> []"
      by (simp add: bucket_def)
  qed
  then show ?thesis by (simp add: filterOnVersion_def)
qed

lemma update_keys_present:
  "map_of es k = Some v \<Longrightarrow> fst ` set (AList.update k w es) = fst ` set es"
  by (induction es) (auto split: if_splits)

lemma filterOnVersion_step_keys: "fst ` set (filterOnVersion_step lib sub k es) \<subseteq> fst ` set es"
  by (cases "map_of es k")
    (auto simp: filterOnVersion_step_passes Let_def delete_filter update_keys_present)

lemma fold_step_keys: "fst ` set (fold (filterOnVersion_step lib sub) ks es) \<subseteq> fst ` set es"
proof (induction ks arbitrary: es)
  case Nil
  show ?case by simp
next
  case (Cons a ks)
  have "fst ` set (fold (filterOnVersion_step lib sub) ks (filterOnVersion_step lib sub a es))
          \<subseteq> fst ` set (filterOnVersion_step lib sub a es)"
    by (rule Cons.IH)
  also have "\<dots> \<subseteq> fst ` set es" by (rule filterOnVersion_step_keys)
  finally show ?case by simp
qed

lemma keys_filterCharts:
  assumes "Package sub \<noteq> ''''" and "e \<in> set (Entries (filterCharts lib sub indexFile))"
  shows "fst e = Package sub"
proof -
  let ?named = "filter (\<lambda>e. fst e = Package sub) (Entries indexFile)"
  from assms have "fst e \<in> fst ` set (fold (filterOnVersion_step lib sub) (map fst ?named) ?named)"
    by (simp add: filterCharts_def removeNoMatchingName_named filterOnVersion_def)
  with fold_step_keys have "fst e \<in> fst ` set ?named" by blast
  then show ?thesis by auto
qed

lemma passes_filterCharts:
  assumes "bucket (filterCharts lib sub indexFile) k = Some cvs"
  shows "filter (passes lib sub) cvs = cvs \<and> cvs \<noteq> []"
  using assms
  by (auto simp: bucket_filterCharts prunedBucket_def split: if_splits option.splits)

lemma passes_noOptionalFilters: "noOptionalFilters sub \<Longrightarrow> passes lib sub chartVersion"
  by (auto simp: noOptionalFilters_def passes_def checkKeywords_def KeywordsChecker_def
      checkTillerVersion_def checkVersion_def split: option.splits)

subsection \<open>The loop of GenerateHelmIndexFile\<close>

lemma GenerateHelmIndexFile_loop_append:
  "GenerateHelmIndexFile_loop env repoRoot indexFile (xs @ ys) =
     (case GenerateHelmIndexFile_loop env repoRoot indexFile xs of
        Inl ended \<Rightarrow> Inl ended
      | Inr indexFile' \<Rightarrow> GenerateHelmIndexFile_loop env repoRoot indexFile' ys)"
  by (induction xs arbitrary: indexFile) (auto simp: Let_def split: option.splits sum.splits)

subsection \<open>The instance on the concrete inputs\<close>

lemma fragment_Parse_290: "fragment_Parse ''2.9.0'' = Inr (2, 9, 0)"
  by (simp add: fragment_Parse_def parseUint_def)

lemma fragment_Parse_200: "fragment_Parse ''2.0.0'' = Inr (2, 0, 0)"
  by (simp add: fragment_Parse_def parseUint_def)

lemma fragment_Parse_100: "fragment_Parse ''1.0.0'' = Inr (1, 0, 0)"
  by (simp add: fragment_Parse_def parseUint_def)

lemma fragment_Parse_range_string:
  "fragment_Parse ''>=2.4.0'' = Inl (Error ''Invalid version: >=2.4.0'')"
  by (simp add: fragment_Parse_def parseUint_def)

lemma fragment_Parse_malformed:
  "fragment_Parse ''not-a-version'' = Inl (Error ''Invalid version: not-a-version'')"
  by (simp add: fragment_Parse_def parseUint_def)

lemma fragment_ParseRange_ge240:
  "fragment_ParseRange ''>=2.4.0'' = Inr (\<lambda>u. u = (2, 4, 0) \<or> semverLess (2, 4, 0) u)"
  by (simp add: fragment_ParseRange_def fragment_comparator_def fragment_Parse_def parseUint_def)

lemma fragment_ParseRange_ge150:
  "fragment_ParseRange ''>=1.5.0'' = Inr (\<lambda>u. u = (1, 5, 0) \<or> semverLess (1, 5, 0) u)"
  by (simp add: fragment_ParseRange_def fragment_comparator_def fragment_Parse_def parseUint_def)

lemmas fragment_evals = fragment_Parse_290 fragment_Parse_200 fragment_Parse_100
  fragment_Parse_range_string fragment_Parse_malformed fragment_ParseRange_ge240
  fragment_ParseRange_ge150

lemma fragmentEnv_sel:
  "semver_Parse (fragmentEnv disk) = fragment_Parse"
  "semver_ParseRange (fragmentEnv disk) = fragment_ParseRange"
  "selector_Matches (fragmentEnv disk) = fragment_Matches"
  "chartutil_LoadChartfile (fragmentEnv disk) = fragment_LoadChartfile disk"
  "filepath_Base (fragmentEnv disk) = fragment_Base"
  "strings_Split (fragmentEnv disk) = fragment_Split"
  "strings_SplitAfter (fragmentEnv disk) = fragment_SplitAfter"
  "IndexFile_Add (fragmentEnv disk) = fragment_Add"
  "IndexFile_SortEntries (fragmentEnv disk) = fragment_SortEntries"
  by (simp_all add: fragmentEnv_def)

lemma exampleSub_sel:
  "Package (exampleSub p f) = p" "PackageFilter (exampleSub p f) = f"
  by (simp_all add: exampleSub_def)

lemma example_tillerVersionFilter:
  "tillerVersionFilter
     (exampleSub ''app'' (Some (exampleFilter '''' (Some [''tillerVersion'' \<mapsto> ''2.9.0'']))))
   = Some ''2.9.0''"
  by (simp add: tillerVersionFilter_def exampleSub_def exampleFilter_def)

lemma example_passes_ge150:
  "passes fragmentLib (exampleSub ''app'' (Some (exampleFilter ''>=1.5.0'' None)))
     (exampleChart n v t) =
   (case fragment_Parse v of Inl err \<Rightarrow> False
    | Inr u \<Rightarrow> u = (1, 5, 0) \<or> semverLess (1, 5, 0) u)"
  by (simp add: passes_def checkKeywords_def KeywordsChecker_def checkTillerVersion_def
      checkVersion_def GetVersion_def fragmentLib_def exampleSub_def exampleFilter_def
      exampleChart_def fragment_ParseRange_ge150 split: sum.splits)

lemma example_named:
  "filter (\<lambda>e. fst e = ''app'') exampleEntries =
     [(''app'', [exampleChart ''app'' ''2.0.0'' ''>=2.4.0'', exampleChart ''app'' ''not-a-version'' '''',
                 exampleChart ''app'' ''1.0.0'' ''''])]"
  by (simp add: exampleEntries_def)

lemma example_filterCharts_ge150:
  "filterCharts fragmentLib (exampleSub ''app'' (Some (exampleFilter ''>=1.5.0'' None)))
     (exampleIndex exampleEntries) =
   exampleIndex [(''app'', [exampleChart ''app'' ''2.0.0'' ''>=2.4.0''])]"
  by (simp add: filterCharts_def removeNoMatchingName_named exampleSub_sel filterOnVersion_def
      exampleIndex_def example_named filterOnVersion_step_passes example_passes_ge150
      fragment_evals)

lemma example_paths:
  "fragment_Base ''/repo/charts/app/'' = ''app''"
  "fragment_Base ''/repo/charts/db/'' = ''db''"
  "fragment_Base ''/repo/charts/web/'' = ''web''"
  "index (fragment_Split ''/repo/charts/app/'' ''app'') 0 = Some ''/repo/charts/''"
  "index (fragment_Split ''/repo/charts/db/'' ''db'') 0 = Some ''/repo/charts/''"
  "index (fragment_Split ''/repo/charts/web/'' ''web'') 0 = Some ''/repo/charts/''"
  "index (fragment_SplitAfter ''/repo/charts/'' ''/repo/'') (Suc 0) = Some ''charts/''"
  by (simp_all add: fragment_Base_def fragment_Split_def fragment_SplitAfter_def index_def)

lemma example_loads:
  "fragment_LoadChartfile exampleDisk ''/repo/charts/app/Chart.yaml'' =
     Inr \<lparr>Name = ''app'', Version = ''1.0.0'', Keywords = [''stable''], TillerVersion = ''''\<rparr>"
  "fragment_LoadChartfile exampleDisk ''/repo/charts/db/Chart.yaml'' =
     Inr \<lparr>Name = ''db'', Version = ''0.3.1'', Keywords = [], TillerVersion = ''''\<rparr>"
  "fragment_LoadChartfile exampleDisk ''/repo/charts/web/Chart.yaml'' =
     Inl (Error ''open /repo/charts/web/Chart.yaml: no such file or directory'')"
  by (simp_all add: fragment_LoadChartfile_def exampleDisk_def)

lemma example_loop:
  "GenerateHelmIndexFile_loop (fragmentEnv exampleDisk) ''/repo'' NewIndexFile
     (map fst [(''/repo/charts/app/'', ''''), (''/repo/charts/db/'', '''')]) = Inr exampleBuilt"
  by (simp add: Let_def fragmentEnv_sel example_paths example_loads fragment_Add_def
      NewIndexFile_def exampleBuilt_def)

lemma example_sort: "fragment_SortEntries exampleBuilt = exampleBuilt"
  by (simp add: fragment_SortEntries_def exampleBuilt_def)

lemma example_filterOnVersion_all:
  "filterOnVersion (fragmentEnv exampleDisk) (exampleSub '''' None) exampleBuilt = exampleBuilt"
  by (rule filterOnVersion_stable)
    (auto simp: passes_noOptionalFilters noOptionalFilters_def exampleSub_sel bucket_def
      exampleBuilt_def split: if_splits)

section \<open>The claims\<close>

subsection \<open>C1: a missing package name\<close>

text \<open>
  Claim C1, as the code has it. When the subscription's package name is empty,
  \<^verbatim>\<open>removeNoMatchingName\<close> returns the missing-name error, but \<^verbatim>\<open>filterCharts\<close> drops it:
  it has no error result and goes on to filter the versions of every bucket, whatever its
  name, so its result is that of \<^verbatim>\<open>filterOnVersion\<close> on the untouched index. When every
  manifest loads, \<^verbatim>\<open>GenerateHelmIndexFile\<close> returns the sorted index filtered in this way,
  with a \<^verbatim>\<open>nil\<close> error.
\<close>

theorem filterCharts_drops_missing_name_error:
  assumes "Package sub = ''''"
  shows "fst (removeNoMatchingName sub indexFile) =
           Some (Error (''subsciption.spec.name is missing for subscription: '' @
                   SubNamespace sub @ ''/'' @ SubName sub)) \<and>
         filterCharts lib sub indexFile = filterOnVersion lib sub indexFile \<and>
         (\<forall>built.
            GenerateHelmIndexFile_loop env repoRoot NewIndexFile (map fst chartDirs) = Inr built \<longrightarrow>
            GenerateHelmIndexFile env sub repoRoot chartDirs =
              Return (filterOnVersion env sub (IndexFile_SortEntries env built)) None)"
  using assms
  by (simp add: removeNoMatchingName_unnamed filterCharts_def GenerateHelmIndexFile_def)

theorem filterCharts_drops_missing_name_error_witness:
  "Package (exampleSub '''' None) = '''' \<and>
   fst (removeNoMatchingName (exampleSub '''' None) exampleBuilt) =
     Some (Error ''subsciption.spec.name is missing for subscription: ns/sub'') \<and>
   filterCharts (fragmentEnv exampleDisk) (exampleSub '''' None) exampleBuilt = exampleBuilt \<and>
   GenerateHelmIndexFile (fragmentEnv exampleDisk) (exampleSub '''' None) ''/repo''
     [(''/repo/charts/app/'', ''''), (''/repo/charts/db/'', '''')] = Return exampleBuilt None"
proof -
  let ?sub = "exampleSub '''' None :: string list Subscription"
  let ?env = "fragmentEnv exampleDisk"
  have h: "Package ?sub = ''''" by (simp add: exampleSub_sel)
  note c = filterCharts_drops_missing_name_error [OF h, of exampleBuilt ?env ?env "''/repo''"
      "[(''/repo/charts/app/'', ''''), (''/repo/charts/db/'', '''')]"]
  from c have 1: "fst (removeNoMatchingName ?sub exampleBuilt) =
     Some (Error ''subsciption.spec.name is missing for subscription: ns/sub'')"
    by (simp add: exampleSub_def)
  from c have 2: "filterCharts ?env ?sub exampleBuilt = exampleBuilt"
    by (simp add: example_filterOnVersion_all)
  from c example_loop have 3: "GenerateHelmIndexFile ?env ?sub ''/repo''
     [(''/repo/charts/app/'', ''''), (''/repo/charts/db/'', '''')] = Return exampleBuilt None"
    by (simp add: fragmentEnv_sel example_sort example_filterOnVersion_all)
  from h 1 2 3 show ?thesis by blast
qed

text \<open>
  The claim as it was stated fails: with an empty package name and two charts on disk,
  \<^verbatim>\<open>GenerateHelmIndexFile\<close> returns both buckets and no error.
\<close>

theorem missing_name_error_propagates_counterexample:
  "Package (exampleSub '''' None) = '''' \<and>
   GenerateHelmIndexFile (fragmentEnv exampleDisk) (exampleSub '''' None) ''/repo''
     [(''/repo/charts/app/'', ''''), (''/repo/charts/db/'', '''')] = Return exampleBuilt None"
  unfolding GenerateHelmIndexFile_def example_loop
  by (simp add: fragmentEnv_sel example_sort filterCharts_def removeNoMatchingName_unnamed
      exampleSub_sel example_filterOnVersion_all)

subsection \<open>C2: a chart version without a tiller version\<close>

text \<open>
  Claim C2, as the code has it. When the subscription carries the \<^verbatim>\<open>tillerVersion\<close>
  annotation and the chart version's tiller version is empty, \<^verbatim>\<open>checkTillerVersion\<close>
  returns true: the version passes this check and is not dropped by it.
\<close>

theorem checkTillerVersion_empty_tillerVersion:
  "tillerVersionFilter sub = Some filterTillerVersion \<Longrightarrow>
   GetTillerVersion chartVersion = '''' \<Longrightarrow>
   checkTillerVersion lib sub chartVersion = True"
  by (simp add: checkTillerVersion_def tillerVersionFilter_def split: option.splits)

theorem checkTillerVersion_empty_tillerVersion_witness:
  "tillerVersionFilter
     (exampleSub ''app'' (Some (exampleFilter '''' (Some [''tillerVersion'' \<mapsto> ''2.9.0'']))))
     = Some ''2.9.0'' \<and>
   GetTillerVersion (exampleChart ''db'' ''0.3.1'' '''') = '''' \<and>
   checkTillerVersion fragmentLib
     (exampleSub ''app'' (Some (exampleFilter '''' (Some [''tillerVersion'' \<mapsto> ''2.9.0'']))))
     (exampleChart ''db'' ''0.3.1'' '''') = True"
proof -
  have t: "GetTillerVersion (exampleChart ''db'' ''0.3.1'' '''') = ''''"
    by (simp add: GetTillerVersion_def exampleChart_def)
  from checkTillerVersion_empty_tillerVersion [OF example_tillerVersionFilter t]
    example_tillerVersionFilter t
  show ?thesis by blast
qed

text \<open>
  The claim as it was stated (the check returns false) fails on a subscription that asks
  for tiller \<^verbatim>\<open>2.9.0\<close> and a chart version that names no tiller version.
\<close>

theorem checkTillerVersion_empty_tillerVersion_counterexample:
  "tillerVersionFilter
     (exampleSub ''app'' (Some (exampleFilter '''' (Some [''tillerVersion'' \<mapsto> ''2.9.0'']))))
     = Some ''2.9.0'' \<and>
   GetTillerVersion (exampleChart ''app'' ''1.0.0'' '''') = '''' \<and>
   checkTillerVersion fragmentLib
     (exampleSub ''app'' (Some (exampleFilter '''' (Some [''tillerVersion'' \<mapsto> ''2.9.0'']))))
     (exampleChart ''app'' ''1.0.0'' '''') \<noteq> False"
  by (simp add: tillerVersionFilter_def checkTillerVersion_def GetTillerVersion_def
      exampleSub_def exampleFilter_def exampleChart_def)

subsection \<open>C3: which side is the range\<close>

text \<open>
  Claim C3, as the code has it. When the subscription carries the \<^verbatim>\<open>tillerVersion\<close>
  annotation and the chart version's tiller version is not empty, the chart version's
  tiller version is parsed as the range and the annotation as the exact version, and the
  check succeeds iff the annotation's version satisfies the chart's range: the matcher is
  called as (chart tiller version, annotation).
\<close>

theorem checkTillerVersion_range_of_chart:
  "tillerVersionFilter sub = Some filterTillerVersion \<Longrightarrow>
   GetTillerVersion chartVersion \<noteq> '''' \<Longrightarrow>
   checkTillerVersion lib sub chartVersion =
     (VersionRangeMatcher lib (GetTillerVersion chartVersion) filterTillerVersion = Inr True)"
  by (auto simp: checkTillerVersion_def tillerVersionFilter_def VersionRangeMatcher_def
      split: option.splits sum.splits)

theorem checkTillerVersion_range_of_chart_witness:
  "tillerVersionFilter
     (exampleSub ''app'' (Some (exampleFilter '''' (Some [''tillerVersion'' \<mapsto> ''2.9.0'']))))
     = Some ''2.9.0'' \<and>
   GetTillerVersion (exampleChart ''app'' ''2.0.0'' ''>=2.4.0'') \<noteq> '''' \<and>
   checkTillerVersion fragmentLib
     (exampleSub ''app'' (Some (exampleFilter '''' (Some [''tillerVersion'' \<mapsto> ''2.9.0'']))))
     (exampleChart ''app'' ''2.0.0'' ''>=2.4.0'') =
   (VersionRangeMatcher fragmentLib ''>=2.4.0'' ''2.9.0'' = Inr True) \<and>
   VersionRangeMatcher fragmentLib ''>=2.4.0'' ''2.9.0'' = Inr True"
proof -
  have t: "GetTillerVersion (exampleChart ''app'' ''2.0.0'' ''>=2.4.0'') \<noteq> ''''"
    by (simp add: GetTillerVersion_def exampleChart_def)
  have g: "GetTillerVersion (exampleChart ''app'' ''2.0.0'' ''>=2.4.0'') = ''>=2.4.0''"
    by (simp add: GetTillerVersion_def exampleChart_def)
  have m: "VersionRangeMatcher fragmentLib ''>=2.4.0'' ''2.9.0'' = Inr True"
    by (simp add: VersionRangeMatcher_def fragmentLib_def fragment_Parse_290
        fragment_ParseRange_ge240)
  from checkTillerVersion_range_of_chart [OF example_tillerVersionFilter t, of fragmentLib]
    example_tillerVersionFilter t m
  show ?thesis by (simp add: g)
qed

text \<open>
  The claim as it was stated takes the annotation for the range and the chart's tiller
  version for the candidate. A chart made for tiller \<^verbatim>\<open>>=2.4.0\<close> passes the check of a
  subscription that asks for \<^verbatim>\<open>2.9.0\<close>, while the matcher called as (annotation, chart
  tiller version) fails to parse \<^verbatim>\<open>>=2.4.0\<close> as a version.
\<close>

theorem checkTillerVersion_range_of_policy_counterexample:
  "tillerVersionFilter
     (exampleSub ''app'' (Some (exampleFilter '''' (Some [''tillerVersion'' \<mapsto> ''2.9.0'']))))
     = Some ''2.9.0'' \<and>
   GetTillerVersion (exampleChart ''app'' ''2.0.0'' ''>=2.4.0'') = ''>=2.4.0'' \<and>
   checkTillerVersion fragmentLib
     (exampleSub ''app'' (Some (exampleFilter '''' (Some [''tillerVersion'' \<mapsto> ''2.9.0'']))))
     (exampleChart ''app'' ''2.0.0'' ''>=2.4.0'') \<noteq>
   (VersionRangeMatcher fragmentLib ''2.9.0'' ''>=2.4.0'' = Inr True)"
  by (simp add: tillerVersionFilter_def checkTillerVersion_def GetTillerVersion_def
      VersionRangeMatcher_def fragmentLib_def exampleSub_def exampleFilter_def exampleChart_def
      fragment_Parse_290 fragment_Parse_range_string fragment_ParseRange_ge240
      split: sum.splits)

subsection \<open>C4: the result is a part of the input, without empty buckets\<close>

text \<open>
  Claim C4. For a subscription with a package name, every bucket of the filtered index is
  non-empty and is a subsequence of the bucket the input has under the same key (so no key
  is new), and a bucket whose versions all fail the checks is absent from the result.
\<close>

theorem filterCharts_subset_nonempty:
  assumes "Package sub \<noteq> ''''"
  shows "(\<forall>k cvs. bucket (filterCharts lib sub indexFile) k = Some cvs \<longrightarrow>
            cvs \<noteq> [] \<and> (\<exists>cvs0. bucket indexFile k = Some cvs0 \<and> subseq cvs cvs0)) \<and>
         (\<forall>k cvs0. bucket indexFile k = Some cvs0 \<and> filter (passes lib sub) cvs0 = [] \<longrightarrow>
            bucket (filterCharts lib sub indexFile) k = None)"
proof (intro conjI allI impI)
  fix k cvs
  assume kept: "bucket (filterCharts lib sub indexFile) k = Some cvs"
  then obtain cvs0 where "bucket indexFile k = Some cvs0" and "cvs = filter (passes lib sub) cvs0"
    by (auto simp: bucket_filterCharts prunedBucket_def split: if_splits option.splits)
  then show "\<exists>cvs0. bucket indexFile k = Some cvs0 \<and> subseq cvs cvs0"
    by auto
  from kept show "cvs \<noteq> []"
    by (simp add: passes_filterCharts)
next
  fix k cvs0
  assume "bucket indexFile k = Some cvs0 \<and> filter (passes lib sub) cvs0 = []"
  then show "bucket (filterCharts lib sub indexFile) k = None"
    by (simp add: bucket_filterCharts prunedBucket_def)
qed

theorem filterCharts_subset_nonempty_witness:
  "Package (exampleSub ''app'' (Some (exampleFilter ''>=1.5.0'' None))) \<noteq> '''' \<and>
   bucket (filterCharts fragmentLib (exampleSub ''app'' (Some (exampleFilter ''>=1.5.0'' None)))
             (exampleIndex exampleEntries)) ''app'' =
     Some [exampleChart ''app'' ''2.0.0'' ''>=2.4.0''] \<and>
   [exampleChart ''app'' ''2.0.0'' ''>=2.4.0''] \<noteq> [] \<and>
   (\<exists>cvs0. bucket (exampleIndex exampleEntries) ''app'' = Some cvs0 \<and>
      subseq [exampleChart ''app'' ''2.0.0'' ''>=2.4.0''] cvs0) \<and>
   bucket (filterCharts fragmentLib (exampleSub ''app'' (Some (exampleFilter ''>=1.5.0'' None)))
             (exampleIndex exampleEntries)) ''db'' = None"
proof -
  let ?sub = "exampleSub ''app'' (Some (exampleFilter ''>=1.5.0'' None))"
  have h: "Package ?sub \<noteq> ''''" by (simp add: exampleSub_sel)
  have b: "bucket (filterCharts fragmentLib ?sub (exampleIndex exampleEntries)) ''app'' =
             Some [exampleChart ''app'' ''2.0.0'' ''>=2.4.0'']"
    by (simp only: example_filterCharts_ge150) (simp add: bucket_def exampleIndex_def)
  have d: "bucket (filterCharts fragmentLib ?sub (exampleIndex exampleEntries)) ''db'' = None"
    by (simp only: example_filterCharts_ge150) (simp add: bucket_def exampleIndex_def)
  from filterCharts_subset_nonempty [OF h, of fragmentLib "exampleIndex exampleEntries"] b
  have "[exampleChart ''app'' ''2.0.0'' ''>=2.4.0''] \<noteq> [] \<and>
        (\<exists>cvs0. bucket (exampleIndex exampleEntries) ''app'' = Some cvs0 \<and>
           subseq [exampleChart ''app'' ''2.0.0'' ''>=2.4.0''] cvs0)"
    by blast
  with h b d show ?thesis by blast
qed

subsection \<open>C5: only the package name set\<close>




subsection \<open>C6: filtering twice\<close>

text \<open>
  Claim C6. For a subscription with a package name, filtering an index that was already
  filtered with the same subscription leaves it unchanged.
\<close>

theorem filterCharts_idempotent:
  assumes "Package sub \<noteq> ''''"
  shows "filterCharts lib sub (filterCharts lib sub indexFile) = filterCharts lib sub indexFile"
proof -
  let ?once = "filterCharts lib sub indexFile"
  have stable: "filterOnVersion lib sub ?once = ?once"
    by (rule filterOnVersion_stable) (rule passes_filterCharts)
  from assms have "filter (\<lambda>e. fst e = Package sub) (Entries ?once) = Entries ?once"
    by (simp add: filter_id_conv keys_filterCharts)
  with assms stable show ?thesis
    by (simp add: filterCharts_def[of lib sub ?once] removeNoMatchingName_named)
qed

theorem filterCharts_idempotent_witness:
  "Package (exampleSub ''app'' (Some (exampleFilter ''>=1.5.0'' None))) \<noteq> '''' \<and>
   filterCharts fragmentLib (exampleSub ''app'' (Some (exampleFilter ''>=1.5.0'' None)))
     (filterCharts fragmentLib (exampleSub ''app'' (Some (exampleFilter ''>=1.5.0'' None)))
        (exampleIndex exampleEntries)) =
   exampleIndex [(''app'', [exampleChart ''app'' ''2.0.0'' ''>=2.4.0''])]"
proof -
  let ?sub = "exampleSub ''app'' (Some (exampleFilter ''>=1.5.0'' None))"
  have h: "Package ?sub \<noteq> ''''" by (simp add: exampleSub_sel)
  from filterCharts_idempotent [OF h, of fragmentLib "exampleIndex exampleEntries"] h
  show ?thesis by (simp add: example_filterCharts_ge150)
qed

subsection \<open>C7: a version string that does not parse\<close>

text \<open>
  Claim C7. A chart version whose version string does not parse as a semantic version
  fails \<^verbatim>\<open>checkVersion\<close> when the subscription sets a version range and passes it when it
  sets none. The failure is a result of the check and not an error of the pass: in either
  case \<^verbatim>\<open>filterOnVersion\<close> runs through, leaving of every bucket the versions that pass the
  checks, and under a version range the bucket that holds such a version comes out as the
  other versions of the bucket come out without it.
\<close>

theorem checkVersion_malformed_version:
  assumes "semver_Parse lib (GetVersion chartVersion) = Inl err"
  shows "checkVersion lib sub chartVersion = (\<not> versionRangeSet sub) \<and>
         (\<forall>indexFile k.
            bucket (filterOnVersion lib sub indexFile) k =
              prunedBucket (passes lib sub) (bucket indexFile k)) \<and>
         (\<forall>indexFile k xs ys.
            versionRangeSet sub \<and> bucket indexFile k = Some (xs @ chartVersion # ys) \<longrightarrow>
            bucket (filterOnVersion lib sub indexFile) k =
              prunedBucket (passes lib sub) (Some (xs @ ys)))"
proof -
  from assms have c: "checkVersion lib sub chartVersion = (\<not> versionRangeSet sub)"
    by (auto simp: checkVersion_def versionRangeSet_def split: option.splits)
  then show ?thesis
    by (auto simp: bucket_filterOnVersion prunedBucket_def passes_def)
qed

theorem checkVersion_malformed_version_witness:
  "semver_Parse fragmentLib (GetVersion (exampleChart ''app'' ''not-a-version'' '''')) =
     Inl (Error ''Invalid version: not-a-version'') \<and>
   versionRangeSet (exampleSub ''app'' (Some (exampleFilter ''>=1.5.0'' None))) \<and>
   checkVersion fragmentLib (exampleSub ''app'' (Some (exampleFilter ''>=1.5.0'' None)))
     (exampleChart ''app'' ''not-a-version'' '''') = False \<and>
   checkVersion fragmentLib (exampleSub ''app'' None)
     (exampleChart ''app'' ''not-a-version'' '''') = True \<and>
   bucket (filterOnVersion fragmentLib (exampleSub ''app'' (Some (exampleFilter ''>=1.5.0'' None)))
             (exampleIndex exampleEntries)) ''app'' =
     Some [exampleChart ''app'' ''2.0.0'' ''>=2.4.0'']"
proof -
  let ?sub = "exampleSub ''app'' (Some (exampleFilter ''>=1.5.0'' None))"
  let ?bad = "exampleChart ''app'' ''not-a-version'' ''''"
  have p: "semver_Parse fragmentLib (GetVersion ?bad) =
             Inl (Error ''Invalid version: not-a-version'')"
    by (simp add: fragmentLib_def GetVersion_def exampleChart_def fragment_Parse_malformed)
  have s: "versionRangeSet ?sub"
    by (simp add: versionRangeSet_def exampleSub_sel exampleFilter_def)
  have n: "\<not> versionRangeSet (exampleSub ''app'' None :: string list Subscription)"
    by (simp add: versionRangeSet_def exampleSub_sel)
  have b: "bucket (exampleIndex exampleEntries) ''app'' =
             Some ([exampleChart ''app'' ''2.0.0'' ''>=2.4.0''] @ ?bad #
                   [exampleChart ''app'' ''1.0.0'' ''''])"
    by (simp add: bucket_def exampleIndex_def exampleEntries_def)
  note c = checkVersion_malformed_version [OF p]
  from c[of ?sub] s b
  have "bucket (filterOnVersion fragmentLib ?sub (exampleIndex exampleEntries)) ''app'' =
          prunedBucket (passes fragmentLib ?sub)
            (Some ([exampleChart ''app'' ''2.0.0'' ''>=2.4.0''] @
                   [exampleChart ''app'' ''1.0.0'' '''']))"
    by blast
  then have r: "bucket (filterOnVersion fragmentLib ?sub (exampleIndex exampleEntries)) ''app'' =
          Some [exampleChart ''app'' ''2.0.0'' ''>=2.4.0'']"
    by (simp add: prunedBucket_def example_passes_ge150 fragment_evals)
  from c[of ?sub] c[of "exampleSub ''app'' None"] p s n r show ?thesis by simp
qed

subsection \<open>C8: a manifest that does not load\<close>

text \<open>
  Claim C8. When the locations before \<open>chartDir\<close> were all added, giving \<open>indexFile\<close>, and
  loading the manifest of \<open>chartDir\<close> fails with \<open>err\<close>, \<^verbatim>\<open>GenerateHelmIndexFile\<close> returns
  \<open>err\<close> together with \<open>indexFile\<close> as the loop left it: the locations after \<open>chartDir\<close> play
  no part, and the index returned is neither sorted nor filtered.
\<close>

theorem GenerateHelmIndexFile_load_failure:
  assumes "GenerateHelmIndexFile_loop env repoRoot NewIndexFile (map fst before) = Inr indexFile"
    and "index (strings_Split env chartDir (filepath_Base env chartDir)) 0 = Some chartParentDir"
    and "index (strings_SplitAfter env chartParentDir (repoRoot @ ''/'')) 1 = Some chartBaseDir"
    and "chartutil_LoadChartfile env (chartDir @ ''Chart.yaml'') = Inl err"
  shows "GenerateHelmIndexFile env sub repoRoot (before @ (chartDir, v) # after) =
           Return indexFile (Some err)"
  using assms by (simp add: GenerateHelmIndexFile_def GenerateHelmIndexFile_loop_append)

theorem GenerateHelmIndexFile_load_failure_witness:
  "GenerateHelmIndexFile_loop (fragmentEnv exampleDisk) ''/repo'' NewIndexFile
     (map fst [(''/repo/charts/app/'', ''''), (''/repo/charts/db/'', '''')]) = Inr exampleBuilt \<and>
   index (strings_Split (fragmentEnv exampleDisk) ''/repo/charts/web/''
            (filepath_Base (fragmentEnv exampleDisk) ''/repo/charts/web/'')) 0 =
     Some ''/repo/charts/'' \<and>
   index (strings_SplitAfter (fragmentEnv exampleDisk) ''/repo/charts/'' (''/repo'' @ ''/'')) 1 =
     Some ''charts/'' \<and>
   chartutil_LoadChartfile (fragmentEnv exampleDisk) (''/repo/charts/web/'' @ ''Chart.yaml'') =
     Inl (Error ''open /repo/charts/web/Chart.yaml: no such file or directory'') \<and>
   GenerateHelmIndexFile (fragmentEnv exampleDisk) (exampleSub ''app'' None) ''/repo''
     ([(''/repo/charts/app/'', ''''), (''/repo/charts/db/'', '''')] @
      (''/repo/charts/web/'', '''') # [(''/repo/charts/api/'', '''')]) =
     Return exampleBuilt
       (Some (Error ''open /repo/charts/web/Chart.yaml: no such file or directory''))"
proof -
  let ?env = "fragmentEnv exampleDisk"
  note h1 = example_loop
  have h2: "index (strings_Split ?env ''/repo/charts/web/''
            (filepath_Base ?env ''/repo/charts/web/'')) 0 = Some ''/repo/charts/''"
    by (simp add: fragmentEnv_sel example_paths)
  have h3: "index (strings_SplitAfter ?env ''/repo/charts/'' (''/repo'' @ ''/'')) 1 =
              Some ''charts/''"
    using example_paths(7) by (simp add: fragmentEnv_sel)
  have h4: "chartutil_LoadChartfile ?env (''/repo/charts/web/'' @ ''Chart.yaml'') =
     Inl (Error ''open /repo/charts/web/Chart.yaml: no such file or directory'')"
    using example_loads(3) by (simp add: fragmentEnv_sel)
  from GenerateHelmIndexFile_load_failure [OF h1 h2 h3 h4, of "exampleSub ''app'' None" "''''"
      "[(''/repo/charts/api/'', '''')]"] h1 h2 h3 h4
  show ?thesis by blast
qed

subsection \<open>C9: the error path of removeNoMatchingName\<close>

text \<open>
  Claim C9. When the subscription's package name is empty, \<^verbatim>\<open>removeNoMatchingName\<close>
  returns an error and leaves the index exactly as it was.
\<close>

theorem removeNoMatchingName_error_atomic:
  "Package sub = '''' \<Longrightarrow>
   fst (removeNoMatchingName sub indexFile) \<noteq> None \<and>
   snd (removeNoMatchingName sub indexFile) = indexFile"
  by (simp add: removeNoMatchingName_def)

theorem removeNoMatchingName_error_atomic_witness:
  "Package (exampleSub '''' None) = '''' \<and>
   fst (removeNoMatchingName (exampleSub '''' None) (exampleIndex exampleEntries)) \<noteq> None \<and>
   snd (removeNoMatchingName (exampleSub '''' None) (exampleIndex exampleEntries)) =
     exampleIndex exampleEntries"
proof -
  have h: "Package (exampleSub '''' None) = ''''" by (simp add: exampleSub_sel)
  from removeNoMatchingName_error_atomic [OF h] h show ?thesis by simp
qed

subsection \<open>C10: the alias of a package\<close>

text \<open>
  Claim C10. \<^verbatim>\<open>GetPackageAlias\<close> returns the alias of the first override whose package
  name is the given one and whose alias is not empty, and the empty string when there is
  no such override; an override with the name and an empty alias does not stop the search.
\<close>

theorem GetPackageAlias_first_nonempty_alias:
  "GetPackageAlias sub packageName =
     (case find (\<lambda>overrides. PackageName overrides = packageName \<and> PackageAlias overrides \<noteq> '''')
             (PackageOverrides sub) of
        None \<Rightarrow> ''''
      | Some overrides \<Rightarrow> PackageAlias overrides)"
  by (simp add: GetPackageAlias_def GetPackageAlias_loop_find)

theorem GetPackageAlias_first_nonempty_alias_witness:
  "GetPackageAlias (exampleSub ''app'' None\<lparr>PackageOverrides := exampleOverrides\<rparr>) ''app'' =
     ''frontend'' \<and>
   GetPackageAlias (exampleSub ''app'' None\<lparr>PackageOverrides := exampleOverrides\<rparr>) ''web'' = ''''"
  by (simp add: GetPackageAlias_first_nonempty_alias exampleSub_def exampleOverrides_def)

end
